theory Spec2Isabelle
  imports Main
begin

section \<open>JURISRAG: ingestion (load.py) and interactive query (main.py) pipelines\<close>

text \<open>
  The repository is orchestration code around external libraries: a directory loader, a
  text splitter, an embeddings client, a similarity index and a chat model.  The embedding
  below models the orchestration as it is written: every print, every log record, every
  \<^verbatim>\<open>sys.exit\<close>, every \<^verbatim>\<open>try/except\<close> and every library call is a step of a
  state-and-exception monad.  The libraries themselves are not part of the repository; what
  they return (or raise) is a parameter, collected in the record \<open>env\<close>.

  Not modelled: wall-clock time (elapsed times appear in messages as the opaque piece
  \<open>Elapsed\<close>, and divisions by an elapsed time are taken not to fail), terminal colour
  rendering, and the log file on disk (log records are events of the output trace).
  \<^verbatim>\<open>KeyboardInterrupt\<close> is modelled where the program can block: at \<^verbatim>\<open>input()\<close> and
  inside library calls.
\<close>

subsection \<open>Python values\<close>

text \<open>
  What a library call or \<^verbatim>\<open>input()\<close> can raise.  \<open>Exception m\<close> is any instance of
  Python's class \<^verbatim>\<open>Exception\<close> with \<^verbatim>\<open>str(e) = m\<close>; \<^verbatim>\<open>KeyboardInterrupt\<close> derives
  from \<^verbatim>\<open>BaseException\<close> only, so \<^verbatim>\<open>except Exception\<close> does not catch it.
\<close>

datatype exc = Exception string | KeyboardInterrupt

text \<open>
  How a procedure ends: it returns, it calls \<^verbatim>\<open>sys.exit(n)\<close> (\<^verbatim>\<open>SystemExit\<close>, which
  neither \<^verbatim>\<open>except Exception\<close> nor \<^verbatim>\<open>except KeyboardInterrupt\<close> catches), or an
  exception is propagating.
\<close>

datatype 'a outcome = Return 'a | Exit nat | Raise exc

datatype document = Document (page_content: string) (metadata: string)

text \<open>
  Strings are sequences of code points below 256.  \<^verbatim>\<open>str.strip()\<close> removes leading and
  trailing whitespace, \<^verbatim>\<open>str.lower()\<close> lowers the cased letters of that range.
\<close>

definition py_isspace :: "char \<Rightarrow> bool" where
  "py_isspace c =
     (let n = (of_char c :: nat)
      in (9 \<le> n \<and> n \<le> 13) \<or> (28 \<le> n \<and> n \<le> 32) \<or> n = 133 \<or> n = 160)"

definition strip :: "string \<Rightarrow> string" where
  "strip s = rev (dropWhile py_isspace (rev (dropWhile py_isspace s)))"

definition lower_char :: "char \<Rightarrow> char" where
  "lower_char c =
     (let n = (of_char c :: nat)
      in if (65 \<le> n \<and> n \<le> 90) \<or> (192 \<le> n \<and> n \<le> 222 \<and> n \<noteq> 215)
         then char_of (n + 32) else c)"

definition lower :: "string \<Rightarrow> string" where
  "lower s = map lower_char s"

subsection \<open>Console text, log records, library calls\<close>

text \<open>
  A printed line is a list of pieces: ASCII literals, code points outside ASCII, formatted
  numbers, and values the model does not compute (times).
\<close>

datatype piece =
    Str string
  | U nat
  | Num nat
  | Ratio nat nat
  | MB nat
  | Elapsed
  | Strs "string list"

type_synonym msg = "piece list"

datatype colour = WHITE | CYAN | GREEN | BLUE | YELLOW | RED
datatype style = NORMAL | BRIGHT
datatype level = DEBUG | INFO | WARNING | ERROR

fun levelno :: "level \<Rightarrow> nat" where
  "levelno DEBUG = 10"
| "levelno INFO = 20"
| "levelno WARNING = 30"
| "levelno ERROR = 40"

datatype embeddings = OpenAIEmbeddings

record loader =
  path :: string
  glob :: string
  loader_cls :: string
  show_progress :: bool
  use_multithreading :: bool

datatype length_function = Len

record splitter =
  chunk_size :: nat
  chunk_overlap :: nat
  length_fn :: length_function

record llm =
  model :: string
  temperature :: int

record 'vs qa_chain =
  chain_llm :: llm
  chain_type :: string
  retriever_vectorstore :: 'vs
  retriever_k :: nat
  return_source_documents :: bool

record qa_result =
  result :: string
  source_documents :: "document list option"

datatype 'vs call =
    Rglob string string
  | LoaderLoad loader
  | SplitDocuments splitter "document list"
  | EmbeddingsInit
  | FromDocuments "document list" embeddings
  | SaveLocal 'vs string
  | LoadLocal string embeddings bool
  | ChatOpenAIInit llm
  | RetrievalQAInit "'vs qa_chain"
  | Retrieve 'vs nat string
  | Generate llm string "document list"
  | OsSystem string

datatype 'vs event =
    Print msg
  | PrintColor style colour msg
  | Prompt msg
  | Log level msg
  | LogException msg exc
  | Call "'vs call"

subsection \<open>The file system, the program state and the environment\<close>

text \<open>
  A path is absent, a regular file with its size, or a directory with its entries (name,
  and size when the entry is a regular file).
\<close>

datatype node = File nat | Dir "(string \<times> nat option) list"

type_synonym filesystem = "string \<Rightarrow> node option"

text \<open>
  \<open>out\<close> is everything the process has emitted so far, oldest first.  \<open>question_count\<close>
  is the local variable of \<^verbatim>\<open>main\<close>; it lives in the state so that a handler sees the
  value it had when the exception was raised.  \<open>calls\<close> counts the invocations of the QA
  chain, so that the remote services may answer differently each time.
\<close>

record 'vs state =
  fs :: filesystem
  out :: "'vs event list"
  question_count :: nat
  calls :: nat

record 'vs env =
  getenv :: "string \<Rightarrow> string option"
  os_name :: string
  path_rglob :: "string \<Rightarrow> string \<Rightarrow> exc + string list"
  loader_load :: "loader \<Rightarrow> exc + document list"
  splitter_split :: "splitter \<Rightarrow> document list \<Rightarrow> exc + document list"
  embeddings_init :: "exc option"
  from_documents :: "document list \<Rightarrow> embeddings \<Rightarrow> exc + 'vs"
  save_local :: "'vs \<Rightarrow> string \<Rightarrow> filesystem \<Rightarrow> exc + filesystem"
  load_local :: "filesystem \<Rightarrow> string \<Rightarrow> embeddings \<Rightarrow> bool \<Rightarrow> exc + 'vs"
  chat_openai_init :: "llm \<Rightarrow> exc option"
  retrieval_qa_init :: "'vs qa_chain \<Rightarrow> exc option"
  retrieve :: "nat \<Rightarrow> 'vs \<Rightarrow> nat \<Rightarrow> string \<Rightarrow> exc + document list"
  generate :: "nat \<Rightarrow> llm \<Rightarrow> string \<Rightarrow> document list \<Rightarrow> exc + string"

subsection \<open>Procedures\<close>

type_synonym ('vs, 'a) proc = "'vs state \<Rightarrow> 'a outcome \<times> 'vs state"

definition ret :: "'a \<Rightarrow> ('vs, 'a) proc" where
  "ret v = (\<lambda>s. (Return v, s))"

definition raise :: "exc \<Rightarrow> ('vs, 'a) proc" where
  "raise e = (\<lambda>s. (Raise e, s))"

definition sys_exit :: "nat \<Rightarrow> ('vs, 'a) proc" where
  "sys_exit n = (\<lambda>s. (Exit n, s))"

definition bind :: "('vs, 'a) proc \<Rightarrow> ('a \<Rightarrow> ('vs, 'b) proc) \<Rightarrow> ('vs, 'b) proc" where
  "bind m f = (\<lambda>s. case m s of
       (Return v, s') \<Rightarrow> f v s'
     | (Exit n, s') \<Rightarrow> (Exit n, s')
     | (Raise e, s') \<Rightarrow> (Raise e, s'))"

definition seq :: "('vs, 'a) proc \<Rightarrow> ('vs, 'b) proc \<Rightarrow> ('vs, 'b) proc" where
  "seq m k = bind m (\<lambda>_. k)"

fun block :: "('vs, unit) proc list \<Rightarrow> ('vs, unit) proc" where
  "block [] = ret ()"
| "block (m # ms) = seq m (block ms)"

text \<open>\<^verbatim>\<open>try: m  except Exception as e: h e\<close>\<close>

definition try_except :: "('vs, 'a) proc \<Rightarrow> (string \<Rightarrow> ('vs, 'a) proc) \<Rightarrow> ('vs, 'a) proc" where
  "try_except m h = (\<lambda>s. case m s of
       (Raise (Exception e), s') \<Rightarrow> h e s'
     | r \<Rightarrow> r)"

text \<open>\<^verbatim>\<open>try: m  except KeyboardInterrupt: hk  except Exception as e: h e\<close>\<close>

definition try_except_interrupt ::
  "('vs, 'a) proc \<Rightarrow> ('vs, 'a) proc \<Rightarrow> (string \<Rightarrow> ('vs, 'a) proc) \<Rightarrow> ('vs, 'a) proc" where
  "try_except_interrupt m hk h = (\<lambda>s. case m s of
       (Raise KeyboardInterrupt, s') \<Rightarrow> hk s'
     | (Raise (Exception e), s') \<Rightarrow> h e s'
     | r \<Rightarrow> r)"

definition emit :: "'vs event \<Rightarrow> ('vs, unit) proc" where
  "emit ev = (\<lambda>s. (Return (), s\<lparr>out := out s @ [ev]\<rparr>))"

text \<open>A library call: the call is recorded, then it returns or raises what the library does.\<close>

definition lib :: "'vs call \<Rightarrow> exc + 'a \<Rightarrow> ('vs, 'a) proc" where
  "lib c r = seq (emit (Call c)) (case r of Inl e \<Rightarrow> raise e | Inr v \<Rightarrow> ret v)"

definition lib_init :: "'vs call \<Rightarrow> exc option \<Rightarrow> 'a \<Rightarrow> ('vs, 'a) proc" where
  "lib_init c r v = seq (emit (Call c)) (case r of Some e \<Rightarrow> raise e | None \<Rightarrow> ret v)"

definition os_path_exists :: "string \<Rightarrow> ('vs, bool) proc" where
  "os_path_exists p = (\<lambda>s. (Return (fs s p \<noteq> None), s))"

definition get_question_count :: "('vs, nat) proc" where
  "get_question_count = (\<lambda>s. (Return (question_count s), s))"

definition set_question_count :: "nat \<Rightarrow> ('vs, unit) proc" where
  "set_question_count n = (\<lambda>s. (Return (), s\<lparr>question_count := n\<rparr>))"

subsection \<open>Printing and logging (identical in load.py and main.py)\<close>

text \<open>
  \<^verbatim>\<open>logging.basicConfig(level=logging.INFO, ...)\<close>: a record below INFO is dropped, the
  others go to the log file and to standard output.
\<close>

definition logger_log :: "level \<Rightarrow> msg \<Rightarrow> ('vs, unit) proc" where
  "logger_log lvl m = (if levelno INFO \<le> levelno lvl then emit (Log lvl m) else ret ())"

definition logger_exception :: "msg \<Rightarrow> string \<Rightarrow> ('vs, unit) proc" where
  "logger_exception m e = emit (LogException m (Exception e))"

definition print :: "msg \<Rightarrow> ('vs, unit) proc" where
  "print m = emit (Print m)"

definition print_color :: "msg \<Rightarrow> colour \<Rightarrow> style \<Rightarrow> ('vs, unit) proc" where
  "print_color message color sty = emit (PrintColor sty color message)"

definition print_header :: "msg \<Rightarrow> ('vs, unit) proc" where
  "print_header message = block
     [print_color [Str (replicate 70 CHR ''='')] CYAN BRIGHT,
      print_color message CYAN BRIGHT,
      print_color [Str (replicate 70 CHR ''='')] CYAN BRIGHT]"

definition print_success :: "msg \<Rightarrow> ('vs, unit) proc" where
  "print_success message = block
     [print_color ([U 9989, Str '' ''] @ message) GREEN BRIGHT,
      logger_log INFO message]"

definition print_info :: "msg \<Rightarrow> ('vs, unit) proc" where
  "print_info message = block
     [print_color ([U 8505, U 65039, Str ''  ''] @ message) BLUE NORMAL,
      logger_log INFO message]"

definition print_warning :: "msg \<Rightarrow> ('vs, unit) proc" where
  "print_warning message = block
     [print_color ([U 9888, U 65039, Str ''  ''] @ message) YELLOW BRIGHT,
      logger_log WARNING message]"

definition print_error :: "msg \<Rightarrow> ('vs, unit) proc" where
  "print_error message = block
     [print_color ([U 10060, Str '' ''] @ message) RED BRIGHT,
      logger_log ERROR message]"

subsection \<open>Library calls\<close>

definition default_data_dir :: string where
  "default_data_dir = ''/Users/gabrielramos/Downloads/DRIVE_DO_BELISARIO''"

text \<open>
  \<^verbatim>\<open>qa_chain({"query": query})\<close> on a \<^verbatim>\<open>RetrievalQA\<close> chain of type "stuff": the
  retriever of the chain is asked for the \<open>k\<close> chunks nearest to the query, and the chat
  model is called with the query and those chunks.  Both are remote calls and may raise.
  The source documents are part of the result when the chain was built with
  \<^verbatim>\<open>return_source_documents=True\<close>.
\<close>

definition next_call :: "('vs, nat) proc" where
  "next_call = (\<lambda>s. (Return (calls s), s\<lparr>calls := Suc (calls s)\<rparr>))"

definition qa_chain_call :: "'vs env \<Rightarrow> 'vs qa_chain \<Rightarrow> string \<Rightarrow> ('vs, qa_result) proc" where
  "qa_chain_call env chain query =
     bind next_call (\<lambda>t.
     bind (lib (Retrieve (retriever_vectorstore chain) (retriever_k chain) query)
             (retrieve env t (retriever_vectorstore chain) (retriever_k chain) query)) (\<lambda>docs.
     bind (lib (Generate (chain_llm chain) query docs)
             (generate env t (chain_llm chain) query docs)) (\<lambda>answer.
     ret \<lparr>result = answer,
          source_documents = (if return_source_documents chain then Some docs else None)\<rparr>)))"

text \<open>
  \<^verbatim>\<open>input(prompt)\<close>: the prompt is written, then the next thing that happens at the
  terminal is a line, the end of input (\<^verbatim>\<open>EOFError\<close>) or Ctrl-C.
\<close>

datatype stdin_item = Line string | EOF | CtrlC

definition py_input :: "msg \<Rightarrow> stdin_item \<Rightarrow> ('vs, string) proc" where
  "py_input prompt item = seq (emit (Prompt prompt))
     (case item of
        Line l \<Rightarrow> ret l
      | EOF \<Rightarrow> raise (Exception ''EOF when reading a line'')
      | CtrlC \<Rightarrow> raise KeyboardInterrupt)"

subsection \<open>main.py\<close>

definition main_validate_environment :: "'vs env \<Rightarrow> ('vs, bool) proc" where
  "main_validate_environment env =
     (let api_key = getenv env ''OPENAI_API_KEY'' in
      if (api_key = None \<or> api_key = Some []) \<or> api_key = Some ''your_openai_api_key_here''
      then seq (block
             [print_error [Str ''OpenAI API key not configured!''],
              print [Str ''Please configure your API key in the .env file before running.''],
              print [Str ''See .env file for instructions.'']])
             (sys_exit 1)
      else ret True)"

definition main_load_documents :: "'vs env \<Rightarrow> string \<Rightarrow> ('vs, document list) proc" where
  "main_load_documents env data_dir =
     seq (print_info [Str ''Loading documents from: '', Str data_dir])
    (bind (os_path_exists data_dir) (\<lambda>ex.
     if \<not> ex
     then seq (print_error [Str ''Directory not found: '', Str data_dir]) (sys_exit 1)
     else try_except
       (bind (lib (LoaderLoad \<lparr>path = data_dir, glob = ''**/*.docx'',
                      loader_cls = ''Docx2txtLoader'', show_progress = True,
                      use_multithreading = False\<rparr>)
                (loader_load env \<lparr>path = data_dir, glob = ''**/*.docx'',
                      loader_cls = ''Docx2txtLoader'', show_progress = True,
                      use_multithreading = False\<rparr>)) (\<lambda>documents.
        if documents = []
        then seq (print_error [Str ''No documents loaded'']) (sys_exit 1)
        else seq (print_success [Str ''Loaded '', Num (length documents), Str '' documents''])
               (ret documents)))
       (\<lambda>e. seq (block
               [print_error [Str ''Error loading documents: '', Str e],
                logger_exception [Str ''Full traceback:''] e])
              (sys_exit 1))))"

definition main_split_documents ::
  "'vs env \<Rightarrow> document list \<Rightarrow> nat \<Rightarrow> nat \<Rightarrow> ('vs, document list) proc" where
  "main_split_documents env documents chunk_sz chunk_ov =
     seq (print_info [Str ''Splitting documents into chunks...''])
    (try_except
       (bind (lib (SplitDocuments
                     \<lparr>chunk_size = chunk_sz, chunk_overlap = chunk_ov, length_fn = Len\<rparr> documents)
                (splitter_split env
                     \<lparr>chunk_size = chunk_sz, chunk_overlap = chunk_ov, length_fn = Len\<rparr> documents))
          (\<lambda>chunks.
        if chunks = []
        then seq (print_error [Str ''No chunks created'']) (sys_exit 1)
        else seq (print_success [Str ''Created '', Num (length chunks), Str '' chunks''])
               (ret chunks)))
       (\<lambda>e. seq (block
               [print_error [Str ''Error splitting documents: '', Str e],
                logger_exception [Str ''Full traceback:''] e])
              (sys_exit 1)))"

definition faiss_save_local :: "'vs env \<Rightarrow> 'vs \<Rightarrow> string \<Rightarrow> ('vs, unit) proc" where
  "faiss_save_local env vectorstore p =
     seq (emit (Call (SaveLocal vectorstore p)))
       (\<lambda>s. case save_local env vectorstore p (fs s) of
               Inl e \<Rightarrow> (Raise e, s)
             | Inr fs' \<Rightarrow> (Return (), s\<lparr>fs := fs'\<rparr>))"

definition faiss_load_local :: "'vs env \<Rightarrow> string \<Rightarrow> embeddings \<Rightarrow> bool \<Rightarrow> ('vs, 'vs) proc" where
  "faiss_load_local env p embeddings allow =
     seq (emit (Call (LoadLocal p embeddings allow)))
       (\<lambda>s. case load_local env (fs s) p embeddings allow of
               Inl e \<Rightarrow> (Raise e, s)
             | Inr v \<Rightarrow> (Return v, s))"

definition main_create_vectorstore :: "'vs env \<Rightarrow> document list \<Rightarrow> ('vs, 'vs) proc" where
  "main_create_vectorstore env chunks =
     seq (print_info [Str ''Creating embeddings and vectorstore...''])
    (try_except
       (bind (lib_init EmbeddingsInit (embeddings_init env) OpenAIEmbeddings) (\<lambda>embeddings.
        bind (lib (FromDocuments chunks embeddings) (from_documents env chunks embeddings))
          (\<lambda>vectorstore.
        seq (faiss_save_local env vectorstore ''vectorstore'')
       (seq (print_success [Str ''Vectorstore created and saved''])
            (ret vectorstore)))))
       (\<lambda>e. seq (block
               [print_error [Str ''Error creating vectorstore: '', Str e],
                logger_exception [Str ''Full traceback:''] e])
              (sys_exit 1)))"

definition main_load_vectorstore :: "'vs env \<Rightarrow> ('vs, 'vs) proc" where
  "main_load_vectorstore env =
     seq (print_info [Str ''Loading vectorstore from disk...''])
    (bind (os_path_exists ''vectorstore'') (\<lambda>ex.
     if \<not> ex
     then seq (block
            [print_error [Str ''Vectorstore not found!''],
             print [Str ''Please run 'python load.py' first to create the vectorstore.'']])
            (sys_exit 1)
     else try_except
       (bind (lib_init EmbeddingsInit (embeddings_init env) OpenAIEmbeddings) (\<lambda>embeddings.
        bind (faiss_load_local env ''vectorstore'' embeddings True) (\<lambda>vectorstore.
        seq (block
               [print_success [Str ''Vectorstore loaded successfully''],
                logger_log INFO [Str ''Vectorstore loaded from disk'']])
            (ret vectorstore))))
       (\<lambda>e. seq (block
               [print_error [Str ''Error loading vectorstore: '', Str e],
                print [Str ''The vectorstore may be corrupted. Try running 'python load.py' again.''],
                logger_exception [Str ''Full traceback:''] e])
              (sys_exit 1))))"

definition main_create_rag_chain :: "'vs env \<Rightarrow> 'vs \<Rightarrow> ('vs, 'vs qa_chain) proc" where
  "main_create_rag_chain env vectorstore =
     seq (print_info [Str ''Creating RAG chain...''])
    (try_except
       (bind (lib_init (ChatOpenAIInit \<lparr>model = ''gpt-3.5-turbo'', temperature = 0\<rparr>)
                (chat_openai_init env \<lparr>model = ''gpt-3.5-turbo'', temperature = 0\<rparr>)
                \<lparr>model = ''gpt-3.5-turbo'', temperature = 0\<rparr>) (\<lambda>llm.
        bind (lib_init
                (RetrievalQAInit \<lparr>chain_llm = llm, chain_type = ''stuff'',
                    retriever_vectorstore = vectorstore, retriever_k = 5,
                    return_source_documents = True\<rparr>)
                (retrieval_qa_init env \<lparr>chain_llm = llm, chain_type = ''stuff'',
                    retriever_vectorstore = vectorstore, retriever_k = 5,
                    return_source_documents = True\<rparr>)
                \<lparr>chain_llm = llm, chain_type = ''stuff'',
                    retriever_vectorstore = vectorstore, retriever_k = 5,
                    return_source_documents = True\<rparr>) (\<lambda>qa_chain.
        seq (block
               [print_success [Str ''RAG chain created successfully''],
                logger_log INFO [Str ''RAG chain created with gpt-3.5-turbo'']])
            (ret qa_chain))))
       (\<lambda>e. seq (block
               [print_error [Str ''Error creating RAG chain: '', Str e],
                logger_exception [Str ''Full traceback:''] e])
              (sys_exit 1)))"

text \<open>
  One pass through the body of \<^verbatim>\<open>while True\<close>.  \<open>Continue\<close> stands for reaching the
  end of the body or a \<^verbatim>\<open>continue\<close>, \<open>Break\<close> for \<^verbatim>\<open>break\<close>.
\<close>

datatype ctl = Continue | Break

definition main_loop_body :: "'vs env \<Rightarrow> 'vs qa_chain \<Rightarrow> stdin_item \<Rightarrow> ('vs, ctl) proc" where
  "main_loop_body env qa_chain item =
     try_except_interrupt
       (bind (py_input [U 128172, Str '' Pergunta: ''] item) (\<lambda>l.
        let query = strip l in
        if query = [] then ret Continue
        else if lower query \<in> set [''sair'', ''exit'', ''quit'']
        then bind get_question_count (\<lambda>n.
             seq (block
               [print [],
                print_success [Str ''Encerrando JURISRAG. '', Num n,
                   Str '' perguntas respondidas. At'', U 233, Str '' logo!''],
                logger_log INFO [Str ''Session ended. '', Num n, Str '' questions answered.'']])
               (ret Break))
        else if lower query \<in> set [''limpar'', ''clear'', ''cls'']
        then seq (lib (OsSystem (if os_name env \<noteq> ''nt'' then ''clear'' else ''cls''))
                    (Inr ()))
               (ret Continue)
        else seq (block
               [print [],
                print_info [Str ''Processando sua pergunta...''],
                logger_log DEBUG [Str ''Query: '', Str query]])
            (bind (qa_chain_call env qa_chain query) (\<lambda>res.
             bind get_question_count (\<lambda>n.
             seq (set_question_count (n + 1))
            (seq (block
               [print [],
                print_color [U 128221, Str '' Resposta:''] CYAN BRIGHT,
                print_color [Str (replicate 70 CHR ''-'')] CYAN NORMAL,
                print [Str (result res)],
                print_color [Str (replicate 70 CHR ''-'')] CYAN NORMAL])
            (seq (case source_documents res of
                    Some (d # ds) \<Rightarrow> block
                      [print [],
                       print_info [Str ''Baseado em '', Num (length (d # ds)),
                          Str '' documentos relevantes''],
                       logger_log DEBUG [Str ''Sources: '', Strs (map metadata (d # ds))]]
                  | _ \<Rightarrow> ret ())
            (seq (print [])
                 (ret Continue)))))))))
       (bind get_question_count (\<lambda>n.
        seq (block
          [print [],
           print_warning [Str ''Interrompido pelo usu'', U 225, Str ''rio''],
           logger_log INFO [Str ''Session interrupted. '', Num n, Str '' questions answered.'']])
          (ret Break)))
       (\<lambda>e. seq (block
          [print [],
           print_error [Str ''Erro ao processar pergunta: '', Str e],
           logger_exception [Str ''Error processing question:''] e,
           print_warning [Str ''Tente fazer a pergunta de outra forma.''],
           print []])
          (ret Continue))"

text \<open>
  The loop over what happens at the terminal.  The list is a finite prefix of the
  terminal's history: when it is used up the session is at the prompt (\<open>Awaiting\<close>); after
  a \<^verbatim>\<open>break\<close> it is over (\<open>Ended\<close>) and what is left of the list is never read.
\<close>

datatype session = Ended | Awaiting

fun main_loop :: "'vs env \<Rightarrow> 'vs qa_chain \<Rightarrow> stdin_item list \<Rightarrow> ('vs, session) proc" where
  "main_loop env qa_chain [] = ret Awaiting"
| "main_loop env qa_chain (item # items) =
     bind (main_loop_body env qa_chain item) (\<lambda>c.
       case c of Continue \<Rightarrow> main_loop env qa_chain items | Break \<Rightarrow> ret Ended)"

text \<open>\<^verbatim>\<open>main()\<close> up to the creation of the RAG chain (the body of the outer \<^verbatim>\<open>try\<close>).\<close>

definition main_startup :: "'vs env \<Rightarrow> ('vs, 'vs qa_chain) proc" where
  "main_startup env =
     seq (main_validate_environment env)
    (bind (bind (os_path_exists ''vectorstore'') (\<lambda>ex.
             if ex
             then seq (print_info [Str ''Found existing vectorstore, loading...''])
                    (main_load_vectorstore env)
             else seq (block
                    [print_warning [Str ''No vectorstore found, creating new one...''],
                     print_warning [Str ''This will take a while and consume API credits.''],
                     print []])
                   (bind (main_load_documents env default_data_dir) (\<lambda>docs.
                    bind (main_split_documents env docs 1000 200) (\<lambda>chunks.
                    main_create_vectorstore env chunks))))) (\<lambda>vectorstore.
     main_create_rag_chain env vectorstore))"

definition main_main :: "'vs env \<Rightarrow> stdin_item list \<Rightarrow> ('vs, session) proc" where
  "main_main env stdin =
     seq (block
       [print_header [U 128218, Str '' JURISRAG - Sistema de Perguntas e Respostas Jur'',
           U 237, Str ''dicas''],
        print [],
        logger_log INFO [Str ''Starting JURISRAG Q&A system'']])
    (try_except
       (bind (main_startup env) (\<lambda>qa_chain.
        seq (block
          [print [],
           print_header [U 9989, Str '' JURISRAG est'', U 225,
              Str '' pronto para responder perguntas!''],
           print [],
           print_color [Str ''Instru'', U 231, U 245, Str ''es:''] CYAN BRIGHT,
           print [Str ''  '', U 8226, Str '' Digite sua pergunta sobre legisla'', U 231, U 227,
              Str ''o brasileira''],
           print [Str ''  '', U 8226, Str '' Digite 'sair' para encerrar o programa''],
           print [Str ''  '', U 8226, Str '' Digite 'limpar' para limpar a tela''],
           print [],
           logger_log INFO [Str ''Interactive Q&A session started''],
           set_question_count 0])
          (main_loop env qa_chain stdin)))
       (\<lambda>e. seq (block
          [print [],
           print_error [Str ''Erro fatal: '', Str e],
           logger_exception [Str ''Fatal error:''] e])
          (sys_exit 1)))"

subsection \<open>load.py\<close>

text \<open>\<^verbatim>\<open>a / b\<close> on two lengths, as it appears inside a formatted message.\<close>

definition py_div :: "nat \<Rightarrow> nat \<Rightarrow> ('vs, piece) proc" where
  "py_div a b = (if b = 0 then raise (Exception ''division by zero'') else ret (Ratio a b))"

definition load_validate_environment :: "'vs env \<Rightarrow> ('vs, bool) proc" where
  "load_validate_environment env =
     seq (print_info [Str ''Validating environment...''])
    (let api_key = getenv env ''OPENAI_API_KEY'' in
     if (api_key = None \<or> api_key = Some []) \<or> api_key = Some ''your_openai_api_key_here''
     then seq (block
            [print_error [Str ''OpenAI API key not configured!''],
             print_color [Str ''Please follow these steps:''] YELLOW NORMAL,
             print [Str ''1. Open the .env file in this directory''],
             print [Str ''2. Replace 'your_openai_api_key_here' with your actual OpenAI API key''],
             print [Str ''3. Get your API key from: https://platform.openai.com/api-keys''],
             print [Str ''4. Save the .env file and run this script again'']])
            (sys_exit 1)
     else seq (block
            [print_success [Str ''OpenAI API key found''],
             logger_log DEBUG [Str ''API key starts with: '',
                Str (take 20 (case api_key of Some k \<Rightarrow> k | None \<Rightarrow> [])), Str ''...'']])
            (ret True))"

definition load_load_documents :: "'vs env \<Rightarrow> string \<Rightarrow> ('vs, document list) proc" where
  "load_load_documents env data_dir =
     seq (print_info [Str ''Loading documents from: '', Str data_dir])
    (bind (os_path_exists data_dir) (\<lambda>ex.
     if \<not> ex
     then seq (block
            [print_error [Str ''Directory not found: '', Str data_dir],
             print [Str ''Please verify the path exists and contains .docx files.'']])
            (sys_exit 1)
     else
     seq (print_info [Str ''Scanning directory for .docx files...''])
    (bind (lib (Rglob data_dir ''*.docx'') (path_rglob env data_dir ''*.docx'')) (\<lambda>docx_files.
     if length docx_files = 0
     then seq (block
            [print_error [Str ''No .docx files found in '', Str data_dir],
             print [Str ''Please verify the directory contains .docx documents.'']])
            (sys_exit 1)
     else
     seq (block
       [print_success [Str ''Found '', Num (length docx_files), Str '' .docx files''],
        logger_log INFO
          (if length docx_files > 10
           then [Str ''File list: '', Strs (take 10 docx_files), Str ''...'']
           else [Str ''Files: '', Strs docx_files])])
    (try_except
       (seq (block
          [print_info [Str ''Loading document contents...''],
           print_color [Str ''This may take several minutes for large document collections'']
             YELLOW NORMAL])
       (bind (lib (LoaderLoad \<lparr>path = data_dir, glob = ''**/*.docx'',
                      loader_cls = ''Docx2txtLoader'', show_progress = True,
                      use_multithreading = True\<rparr>)
                (loader_load env \<lparr>path = data_dir, glob = ''**/*.docx'',
                      loader_cls = ''Docx2txtLoader'', show_progress = True,
                      use_multithreading = True\<rparr>)) (\<lambda>documents.
        if documents = []
        then seq (block
               [print_warning [Str ''Files found but no content loaded''],
                print [Str ''This may indicate issues with the .docx files.'']])
               (sys_exit 1)
        else seq (block
               [print_success [Str ''Successfully loaded '', Num (length documents),
                   Str '' documents in '', Elapsed, Str ''s''],
                print_info [Str ''Average: '', Elapsed, Str ''s per document''],
                logger_log INFO [Str ''Loaded '', Num (length documents),
                   Str '' documents, total size: '',
                   Num (sum_list (map (\<lambda>doc. length (page_content doc)) documents)),
                   Str '' characters'']])
               (ret documents))))
       (\<lambda>e. seq (block
               [print_error [Str ''Error loading documents: '', Str e],
                logger_exception [Str ''Full traceback:''] e,
                print_color [Str [CHR 0x0A], Str ''Troubleshooting steps:''] YELLOW NORMAL,
                print [Str ''1. Verify all .docx files are valid and not corrupted''],
                print [Str ''2. Check file permissions''],
                print [Str ''3. Ensure docx2txt is installed: pip install docx2txt'']])
              (sys_exit 1)))))))"

definition load_split_documents ::
  "'vs env \<Rightarrow> document list \<Rightarrow> nat \<Rightarrow> nat \<Rightarrow> ('vs, document list) proc" where
  "load_split_documents env documents chunk_sz chunk_ov =
     seq (block
       [print_info [Str ''Splitting documents into chunks...''],
        print_color [Str ''   Chunk size: '', Num chunk_sz, Str '' characters''] CYAN NORMAL,
        print_color [Str ''   Chunk overlap: '', Num chunk_ov, Str '' characters''] CYAN NORMAL])
    (try_except
       (bind (lib (SplitDocuments
                     \<lparr>chunk_size = chunk_sz, chunk_overlap = chunk_ov, length_fn = Len\<rparr> documents)
                (splitter_split env
                     \<lparr>chunk_size = chunk_sz, chunk_overlap = chunk_ov, length_fn = Len\<rparr> documents))
          (\<lambda>chunks.
        case map (\<lambda>c. length (page_content c)) chunks of
          [] \<Rightarrow> seq (print_error [Str ''No chunks created from documents'']) (sys_exit 1)
        | n # ns \<Rightarrow>
            bind (py_div (length chunks) (length documents)) (\<lambda>avg_chunks.
            seq (block
              [print_success [Str ''Created '', Num (length chunks), Str '' chunks from '',
                  Num (length documents), Str '' documents in '', Elapsed, Str ''s''],
               print_info [Str ''Average: '', avg_chunks, Str '' chunks per document''],
               logger_log INFO [Str ''Chunk sizes - min: '', Num (fold min ns n),
                  Str '', max: '', Num (fold max ns n),
                  Str '', avg: '', Ratio (sum_list (n # ns)) (length chunks)]])
              (ret chunks))))
       (\<lambda>e. seq (block
               [print_error [Str ''Error splitting documents: '', Str e],
                logger_exception [Str ''Full traceback:''] e])
              (sys_exit 1)))"

text \<open>
  After saving, \<^verbatim>\<open>create_vectorstore\<close> of load.py looks at the directory it has just
  written: its entries and the total size of the regular files among them.
\<close>

definition load_report_saved :: "string \<Rightarrow> document list \<Rightarrow> ('vs, unit) proc" where
  "load_report_saved vectorstore_path chunks = (\<lambda>s.
     (case fs s vectorstore_path of
        Some (Dir files) \<Rightarrow> block
          [print_success [Str ''Vectorstore saved successfully ('', Num (length files),
              Str '' files, '',
              MB (sum_list (map (\<lambda>f. case snd f of Some sz \<Rightarrow> sz | None \<Rightarrow> 0) files)),
              Str '' MB)''],
           print_info [Str ''Embedding generation: '', Elapsed, Str ''s ('', Elapsed,
              Str '' chunks/s)''],
           print_info [Str ''Total time: '', Elapsed, Str ''s''],
           logger_log INFO [Str ''Vectorstore created: '', Num (length chunks),
              Str '' chunks, '',
              Num (sum_list (map (\<lambda>f. case snd f of Some sz \<Rightarrow> sz | None \<Rightarrow> 0) files)),
              Str '' bytes, '', Elapsed, Str ''s'']]
      | _ \<Rightarrow> print_warning [Str ''Vectorstore directory not found after save'']) s)"

definition load_create_vectorstore :: "'vs env \<Rightarrow> document list \<Rightarrow> ('vs, 'vs) proc" where
  "load_create_vectorstore env chunks =
     seq (block
       [print_info [Str ''Creating embeddings and vectorstore...''],
        print_color [Str ''   Processing '', Num (length chunks), Str '' chunks''] CYAN NORMAL,
        print_warning
          [Str ''This may take several minutes and will consume OpenAI API credits'']])
    (try_except
       (bind (lib_init EmbeddingsInit (embeddings_init env) OpenAIEmbeddings) (\<lambda>embeddings.
        seq (block
          [print_info [Str ''Generating embeddings from OpenAI...''],
           print_color [Str ''   This is the slowest step - please be patient''] YELLOW NORMAL])
       (bind (lib (FromDocuments chunks embeddings) (from_documents env chunks embeddings))
          (\<lambda>vectorstore.
        seq (print_info [Str ''Saving vectorstore to: '', Str ''vectorstore'', Str ''/''])
       (seq (faiss_save_local env vectorstore ''vectorstore'')
       (seq (load_report_saved ''vectorstore'' chunks)
            (ret vectorstore)))))))
       (\<lambda>e. seq (block
               [print_error [Str ''Error creating vectorstore: '', Str e],
                logger_exception [Str ''Full traceback:''] e,
                print_color [Str [CHR 0x0A], Str ''Possible causes:''] YELLOW NORMAL,
                print [Str ''1. Invalid OpenAI API key''],
                print [Str ''2. Insufficient API credits''],
                print [Str ''3. Network connectivity issues''],
                print [Str ''4. Rate limiting from OpenAI''],
                print [Str [CHR 0x0A],
                   Str ''Please check your OpenAI account and try again.'']])
              (sys_exit 1)))"

text \<open>The three ingestion steps of the \<^verbatim>\<open>__main__\<close> block, with the blank lines between.\<close>

definition load_pipeline :: "'vs env \<Rightarrow> ('vs, document list \<times> document list \<times> 'vs) proc" where
  "load_pipeline env =
     bind (load_load_documents env default_data_dir) (\<lambda>docs.
     seq (print [])
    (bind (load_split_documents env docs 1000 200) (\<lambda>chunks.
     seq (print [])
    (bind (load_create_vectorstore env chunks) (\<lambda>vectorstore.
     seq (print [])
         (ret (docs, chunks, vectorstore)))))))"

text \<open>The \<^verbatim>\<open>if __name__ == "__main__":\<close> block of load.py.\<close>

definition load_main :: "'vs env \<Rightarrow> ('vs, unit) proc" where
  "load_main env =
     seq (block
       [print_header [U 128218, Str '' JURISRAG - Document Loading and Embedding Pipeline''],
        print [],
        logger_log INFO [Str ''Starting document loading pipeline'']])
    (try_except_interrupt
       (seq (load_validate_environment env)
       (seq (print [])
       (bind (load_pipeline env) (\<lambda>(docs, chunks, vectorstore).
        seq (block
          [print_header [U 127881, Str '' SUCCESS! Vectorstore created and saved successfully''],
           print [],
           print_success [Str ''Total pipeline time: '', Elapsed, Str ''s ('', Elapsed,
              Str '' minutes)''],
           print_color [Str [CHR 0x0A], Str ''Statistics:''] CYAN BRIGHT,
           print [Str ''  '', U 8226, Str '' Documents processed: '', Num (length docs)],
           print [Str ''  '', U 8226, Str '' Chunks created: '', Num (length chunks)]])
       (bind (py_div (length chunks) (length docs)) (\<lambda>avg.
        block
          [print [Str ''  '', U 8226, Str '' Average chunks per doc: '', avg],
           print [Str ''  '', U 8226, Str '' Processing speed: '', Elapsed, Str '' docs/min''],
           print [],
           print_color [Str ''Next steps:''] GREEN BRIGHT,
           print [Str ''1. Run 'python main.py' to start the interactive Q&A system''],
           print [Str ''2. Ask questions about your legal documents''],
           print [],
           logger_log INFO [Str ''Pipeline completed successfully in '', Elapsed,
              Str ''s'']]))))))
       (seq (block
          [print [],
           print_warning [Str ''Process interrupted by user''],
           logger_log WARNING [Str ''Process interrupted by user'']])
          (sys_exit 1))
       (\<lambda>e. seq (block
          [print [],
           print_error [Str ''Unexpected error: '', Str e],
           logger_exception [Str ''Unexpected error - full traceback:''] e])
          (sys_exit 1)))"

section \<open>Observing a run\<close>

text \<open>What a procedure adds to the output when it is run from a state.\<close>

definition emitted :: "('vs, 'a) proc \<Rightarrow> 'vs state \<Rightarrow> 'vs event list" where
  "emitted p s = drop (length (out s)) (out (snd (p s)))"

text \<open>The library calls among some events, in order.\<close>

fun calls_of :: "'vs event list \<Rightarrow> 'vs call list" where
  "calls_of [] = []"
| "calls_of (Call c # evs) = c # calls_of evs"
| "calls_of (_ # evs) = calls_of evs"

text \<open>
  A line entered at the prompt is a question when, stripped, it is neither empty nor one
  of the commands of the loop.
\<close>

definition is_question :: "string \<Rightarrow> bool" where
  "is_question query \<longleftrightarrow>
     query \<noteq> [] \<and> lower query \<notin> set [''sair'', ''exit'', ''quit'']
       \<and> lower query \<notin> set [''limpar'', ''clear'', ''cls'']"

text \<open>The lines that the loop writes around a question, named for the statements below.\<close>

definition question_intro :: "'vs event list" where
  "question_intro =
     [Prompt [U 128172, Str '' Pergunta: ''], Print [],
      PrintColor NORMAL BLUE
        [U 8505, U 65039, Str ''  '', Str ''Processando sua pergunta...''],
      Log INFO [Str ''Processando sua pergunta...'']]"

definition question_failed :: "string \<Rightarrow> 'vs event list" where
  "question_failed e =
     [Print [],
      PrintColor BRIGHT RED [U 10060, Str '' '', Str ''Erro ao processar pergunta: '', Str e],
      Log ERROR [Str ''Erro ao processar pergunta: '', Str e],
      LogException [Str ''Error processing question:''] (Exception e),
      PrintColor BRIGHT YELLOW
        [U 9888, U 65039, Str ''  '', Str ''Tente fazer a pergunta de outra forma.''],
      Log WARNING [Str ''Tente fazer a pergunta de outra forma.''],
      Print []]"

definition interrupted :: "nat \<Rightarrow> 'vs event list" where
  "interrupted n =
     [Print [],
      PrintColor BRIGHT YELLOW
        [U 9888, U 65039, Str ''  '', Str ''Interrompido pelo usu'', U 225, Str ''rio''],
      Log WARNING [Str ''Interrompido pelo usu'', U 225, Str ''rio''],
      Log INFO [Str ''Session interrupted. '', Num n, Str '' questions answered.'']]"

definition answer_shown :: "string \<Rightarrow> document list \<Rightarrow> 'vs event list" where
  "answer_shown answer docs =
     [Print [],
      PrintColor BRIGHT CYAN [U 128221, Str '' Resposta:''],
      PrintColor NORMAL CYAN [Str (replicate 70 CHR ''-'')],
      Print [Str answer],
      PrintColor NORMAL CYAN [Str (replicate 70 CHR ''-'')]]
     @ (if docs = [] then []
        else [Print [],
              PrintColor NORMAL BLUE
                [U 8505, U 65039, Str ''  '', Str ''Baseado em '', Num (length docs),
                 Str '' documentos relevantes''],
              Log INFO [Str ''Baseado em '', Num (length docs),
                 Str '' documentos relevantes'']])
     @ [Print []]"

text \<open>
  Whether a console line or log record shows the documents themselves: their metadata
  (the source paths) as a list, or the path or the text of one of them.
\<close>

definition piece_shows :: "document list \<Rightarrow> piece \<Rightarrow> bool" where
  "piece_shows docs p =
     (case p of
        Strs l \<Rightarrow> l = map metadata docs
      | Str t \<Rightarrow> t \<in> set (map metadata docs) \<or> t \<in> set (map page_content docs)
      | _ \<Rightarrow> False)"

definition shows_sources :: "document list \<Rightarrow> 'vs event \<Rightarrow> bool" where
  "shows_sources docs ev =
     (case ev of
        Print m \<Rightarrow> list_ex (piece_shows docs) m
      | PrintColor sty col m \<Rightarrow> list_ex (piece_shows docs) m
      | Log lvl m \<Rightarrow> list_ex (piece_shows docs) m
      | LogException m e \<Rightarrow> list_ex (piece_shows docs) m
      | _ \<Rightarrow> False)"

text \<open>The configurations that the source writes out, named.\<close>

definition main_loader :: "string \<Rightarrow> loader" where
  "main_loader d = \<lparr>path = d, glob = ''**/*.docx'', loader_cls = ''Docx2txtLoader'',
     show_progress = True, use_multithreading = False\<rparr>"

definition load_loader :: "string \<Rightarrow> loader" where
  "load_loader d = \<lparr>path = d, glob = ''**/*.docx'', loader_cls = ''Docx2txtLoader'',
     show_progress = True, use_multithreading = True\<rparr>"

definition default_splitter :: splitter where
  "default_splitter = \<lparr>chunk_size = 1000, chunk_overlap = 200, length_fn = Len\<rparr>"

definition gpt :: llm where
  "gpt = \<lparr>model = ''gpt-3.5-turbo'', temperature = 0\<rparr>"

definition rag_chain :: "'vs \<Rightarrow> 'vs qa_chain" where
  "rag_chain v = \<lparr>chain_llm = gpt, chain_type = ''stuff'', retriever_vectorstore = v,
     retriever_k = 5, return_source_documents = True\<rparr>"

definition vectorstore_not_found :: "'vs event" where
  "vectorstore_not_found =
     PrintColor BRIGHT RED [U 10060, Str '' '', Str ''Vectorstore not found!'']"

text \<open>A line written by \<^verbatim>\<open>print_error\<close>, and one written by \<^verbatim>\<open>print_warning\<close>.\<close>

definition is_error_line :: "'vs event \<Rightarrow> bool" where
  "is_error_line ev =
     (case ev of
        PrintColor sty col m \<Rightarrow> sty = BRIGHT \<and> col = RED \<and> take 2 m = [U 10060, Str '' '']
      | _ \<Rightarrow> False)"

definition is_warning_line :: "'vs event \<Rightarrow> bool" where
  "is_warning_line ev =
     (case ev of
        PrintColor sty col m \<Rightarrow>
          sty = BRIGHT \<and> col = YELLOW \<and> take 3 m = [U 9888, U 65039, Str ''  '']
      | _ \<Rightarrow> False)"

subsection \<open>A concrete environment\<close>

text \<open>
  One document in the corpus, libraries that succeed, an index that is the list of its
  chunks, a retriever that returns the first \<open>k\<close> of them.  The state is that of a fresh
  process on a given file system.
\<close>

definition demo_docs :: "document list" where
  "demo_docs = [Document ''Art. 1 Todo poder emana do povo.'' ''cf.docx'']"

definition demo_env :: "document list env" where
  "demo_env = \<lparr>
     getenv = (\<lambda>k. if k = ''OPENAI_API_KEY'' then Some ''sk-demo'' else None),
     os_name = ''posix'',
     path_rglob = (\<lambda>d p. Inr [''cf.docx'']),
     loader_load = (\<lambda>l. Inr demo_docs),
     splitter_split = (\<lambda>c docs. Inr docs),
     embeddings_init = None,
     from_documents = (\<lambda>chunks e. Inr chunks),
     save_local = (\<lambda>v p f. Inr (f(p \<mapsto> Dir [(''index.faiss'', Some 45), (''index.pkl'', Some 60)]))),
     load_local = (\<lambda>f p e a. Inr demo_docs),
     chat_openai_init = (\<lambda>l. None),
     retrieval_qa_init = (\<lambda>c. None),
     retrieve = (\<lambda>t v k q. Inr (take k v)),
     generate = (\<lambda>t l q docs. Inr ''Do povo.'')\<rparr>"

definition start :: "filesystem \<Rightarrow> 'vs state" where
  "start f = \<lparr>fs = f, out = [], question_count = 0, calls = 0\<rparr>"

definition demo_fs :: filesystem where
  "demo_fs = [default_data_dir \<mapsto> Dir [(''cf.docx'', Some 12000)]]"

text \<open>The same environment with a retriever whose remote call fails.\<close>

definition timeout_env :: "document list env" where
  "timeout_env = demo_env\<lparr>retrieve := (\<lambda>t v k q. Inl (Exception ''timeout''))\<rparr>"

section \<open>Properties\<close>

subsection \<open>Unfolding the procedures\<close>

lemmas proc_defs =
  ret_def raise_def sys_exit_def bind_def seq_def try_except_def try_except_interrupt_def
  emit_def lib_def lib_init_def os_path_exists_def get_question_count_def
  set_question_count_def logger_log_def logger_exception_def print_def print_color_def
  print_header_def print_success_def print_info_def print_warning_def print_error_def
  next_call_def py_input_def

lemma calls_of_append: "calls_of (xs @ ys) = calls_of xs @ calls_of ys"
  by (induction xs rule: calls_of.induct) simp_all

lemma calls_of_lines [simp]:
  "calls_of question_intro = []"
  "calls_of (question_failed e) = []"
  "calls_of (interrupted n) = []"
  "calls_of (answer_shown a docs) = []"
  by (simp_all add: question_intro_def question_failed_def interrupted_def answer_shown_def)

subsection \<open>One pass of the loop, case by case\<close>

lemma body_empty:
  "strip l = [] \<Longrightarrow>
   main_loop_body env chain (Line l) s =
     (Return Continue, s\<lparr>out := out s @ [Prompt [U 128172, Str '' Pergunta: '']]\<rparr>)"
  by (simp add: main_loop_body_def proc_defs)

lemma body_retrieve_exception:
  assumes "is_question (strip l)"
    and "retrieve env (calls s) (retriever_vectorstore chain) (retriever_k chain) (strip l)
           = Inl (Exception e)"
  shows "main_loop_body env chain (Line l) s =
     (Return Continue, s\<lparr>out := out s @ question_intro
         @ [Call (Retrieve (retriever_vectorstore chain) (retriever_k chain) (strip l))]
         @ question_failed e, calls := Suc (calls s)\<rparr>)"
  using assms
  by (simp add: main_loop_body_def qa_chain_call_def proc_defs is_question_def Let_def
        question_intro_def question_failed_def)

lemma body_retrieve_interrupt:
  assumes "is_question (strip l)"
    and "retrieve env (calls s) (retriever_vectorstore chain) (retriever_k chain) (strip l)
           = Inl KeyboardInterrupt"
  shows "main_loop_body env chain (Line l) s =
     (Return Break, s\<lparr>out := out s @ question_intro
         @ [Call (Retrieve (retriever_vectorstore chain) (retriever_k chain) (strip l))]
         @ interrupted (question_count s), calls := Suc (calls s)\<rparr>)"
  using assms
  by (simp add: main_loop_body_def qa_chain_call_def proc_defs is_question_def Let_def
        question_intro_def interrupted_def)

lemma body_generate_exception:
  assumes "is_question (strip l)"
    and "retrieve env (calls s) (retriever_vectorstore chain) (retriever_k chain) (strip l)
           = Inr docs"
    and "generate env (calls s) (chain_llm chain) (strip l) docs = Inl (Exception e)"
  shows "main_loop_body env chain (Line l) s =
     (Return Continue, s\<lparr>out := out s @ question_intro
         @ [Call (Retrieve (retriever_vectorstore chain) (retriever_k chain) (strip l)),
            Call (Generate (chain_llm chain) (strip l) docs)]
         @ question_failed e, calls := Suc (calls s)\<rparr>)"
  using assms
  by (simp add: main_loop_body_def qa_chain_call_def proc_defs is_question_def Let_def
        question_intro_def question_failed_def)

lemma body_generate_interrupt:
  assumes "is_question (strip l)"
    and "retrieve env (calls s) (retriever_vectorstore chain) (retriever_k chain) (strip l)
           = Inr docs"
    and "generate env (calls s) (chain_llm chain) (strip l) docs = Inl KeyboardInterrupt"
  shows "main_loop_body env chain (Line l) s =
     (Return Break, s\<lparr>out := out s @ question_intro
         @ [Call (Retrieve (retriever_vectorstore chain) (retriever_k chain) (strip l)),
            Call (Generate (chain_llm chain) (strip l) docs)]
         @ interrupted (question_count s), calls := Suc (calls s)\<rparr>)"
  using assms
  by (simp add: main_loop_body_def qa_chain_call_def proc_defs is_question_def Let_def
        question_intro_def interrupted_def)

lemma body_answered:
  assumes "is_question (strip l)"
    and "retrieve env (calls s) (retriever_vectorstore chain) (retriever_k chain) (strip l)
           = Inr docs"
    and "generate env (calls s) (chain_llm chain) (strip l) docs = Inr answer"
  shows "main_loop_body env chain (Line l) s =
     (Return Continue, s\<lparr>out := out s @ question_intro
         @ [Call (Retrieve (retriever_vectorstore chain) (retriever_k chain) (strip l)),
            Call (Generate (chain_llm chain) (strip l) docs)]
         @ answer_shown answer (if return_source_documents chain then docs else []),
         question_count := Suc (question_count s), calls := Suc (calls s)\<rparr>)"
  using assms
  by (cases docs)
     (simp_all add: main_loop_body_def qa_chain_call_def proc_defs is_question_def Let_def
        question_intro_def answer_shown_def)

lemma emitted_update [simp]:
  "snd (p s) = s\<lparr>out := out s @ xs\<rparr> \<Longrightarrow> emitted p s = xs"
  "snd (p s) = s\<lparr>out := out s @ xs, calls := c\<rparr> \<Longrightarrow> emitted p s = xs"
  "snd (p s) = s\<lparr>out := out s @ xs, question_count := n, calls := c\<rparr> \<Longrightarrow> emitted p s = xs"
  by (simp_all add: emitted_def)

lemma question_demo: "is_question (strip ''  O que diz o artigo 1?  '')"
  by code_simp

lemma strip_demo: "strip ''  O que diz o artigo 1?  '' = ''O que diz o artigo 1?''"
  by code_simp

subsection \<open>The interactive loop\<close>

text \<open>
  Claim C9.  When the line entered at the prompt is empty after \<^verbatim>\<open>strip()\<close>, the pass
  through the loop body writes the prompt and nothing else: the QA chain is not invoked (no
  library call is made), no answer is printed, \<open>question_count\<close> keeps its value, and the
  loop goes on with the next terminal event, that is, it prompts again.
\<close>

theorem C9_empty_line_is_skipped:
  assumes "strip l = []"
  shows "main_loop_body env qa_chain (Line l) s =
           (Return Continue, s\<lparr>out := out s @ [Prompt [U 128172, Str '' Pergunta: '']]\<rparr>)
       \<and> calls_of (emitted (main_loop_body env qa_chain (Line l)) s) = []
       \<and> question_count (snd (main_loop_body env qa_chain (Line l) s)) = question_count s
       \<and> main_loop env qa_chain (Line l # items) s =
           main_loop env qa_chain items
             (s\<lparr>out := out s @ [Prompt [U 128172, Str '' Pergunta: '']]\<rparr>)"
  using body_empty [OF assms, of env qa_chain s]
  by (simp add: bind_def)

theorem C9_empty_line_is_skipped_witness:
  "strip [CHR '' '', CHR 0x09, CHR '' ''] = []
   \<and> main_loop_body demo_env (rag_chain demo_docs) (Line [CHR '' '', CHR 0x09, CHR '' ''])
         (start demo_fs) =
           (Return Continue, (start demo_fs)\<lparr>out := [Prompt [U 128172, Str '' Pergunta: '']]\<rparr>)
   \<and> main_loop demo_env (rag_chain demo_docs) [Line [CHR '' '', CHR 0x09, CHR '' '']]
         (start demo_fs) =
           (Return Awaiting, (start demo_fs)\<lparr>out := [Prompt [U 128172, Str '' Pergunta: '']]\<rparr>)"
proof -
  have h: "strip [CHR '' '', CHR 0x09, CHR '' ''] = []"
    by (simp add: strip_def py_isspace_def)
  show ?thesis
    using h C9_empty_line_is_skipped [OF h, of demo_env "rag_chain demo_docs" "start demo_fs" "[]"]
    by (simp add: start_def ret_def)
qed

text \<open>
  Claim C8.  When the QA chain raises an \<^verbatim>\<open>Exception\<close> while a question is processed, the
  pass through the loop body ends normally and the loop goes on with the next terminal
  event: the session is not terminated.  The last thing written is the error message of the
  handler, \<open>question_count\<close> is not incremented, and the file system is untouched.
\<close>

theorem C8_exception_does_not_end_session:
  assumes "is_question (strip l)"
    and "fst (qa_chain_call env qa_chain (strip l) s) = Raise (Exception e)"
  shows "fst (main_loop_body env qa_chain (Line l) s) = Return Continue
       \<and> question_count (snd (main_loop_body env qa_chain (Line l) s)) = question_count s
       \<and> fs (snd (main_loop_body env qa_chain (Line l) s)) = fs s
       \<and> (\<exists>pre. emitted (main_loop_body env qa_chain (Line l)) s = pre @ question_failed e)
       \<and> main_loop env qa_chain (Line l # items) s =
           main_loop env qa_chain items (snd (main_loop_body env qa_chain (Line l) s))"
proof -
  let ?r = "retrieve env (calls s) (retriever_vectorstore qa_chain) (retriever_k qa_chain) (strip l)"
  from assms(2) consider
      (retrieve) "?r = Inl (Exception e)"
    | (generate) docs where "?r = Inr docs"
        "generate env (calls s) (chain_llm qa_chain) (strip l) docs = Inl (Exception e)"
    by (auto simp: qa_chain_call_def proc_defs split: sum.splits exc.splits)
  then show ?thesis
  proof cases
    case retrieve
    show ?thesis
      using body_retrieve_exception [OF assms(1) retrieve]
      by (simp add: bind_def)
  next
    case generate
    show ?thesis
      using body_generate_exception [OF assms(1) generate]
      by (simp add: bind_def)
  qed
qed

theorem C8_exception_does_not_end_session_witness:
  "is_question (strip ''  O que diz o artigo 1?  '')
   \<and> fst (qa_chain_call timeout_env (rag_chain demo_docs) (strip ''  O que diz o artigo 1?  '')
            (start demo_fs)) = Raise (Exception ''timeout'')
   \<and> fst (main_loop_body timeout_env (rag_chain demo_docs) (Line ''  O que diz o artigo 1?  '')
            (start demo_fs)) = Return Continue
   \<and> question_count (snd (main_loop_body timeout_env (rag_chain demo_docs)
            (Line ''  O que diz o artigo 1?  '') (start demo_fs))) = 0"
proof -
  have h1: "is_question (strip ''  O que diz o artigo 1?  '')"
    by (rule question_demo)
  have h2: "fst (qa_chain_call timeout_env (rag_chain demo_docs)
              (strip ''  O que diz o artigo 1?  '') (start demo_fs)) = Raise (Exception ''timeout'')"
    by (simp add: qa_chain_call_def proc_defs timeout_env_def)
  show ?thesis
    using h1 h2 C8_exception_does_not_end_session [OF h1 h2, of "[]"]
    by (simp add: start_def)
qed

subsection \<open>What each start-up step returns and writes\<close>

lemmas sp = sum.splits exc.splits option.splits
lemmas obs = vectorstore_not_found_def is_error_line_def emitted_def

lemma main_create_rag_chain_fst:
  "fst (main_create_rag_chain env v s) =
     (case chat_openai_init env gpt of
        Some (Exception e) \<Rightarrow> Exit 1
      | Some KeyboardInterrupt \<Rightarrow> Raise KeyboardInterrupt
      | None \<Rightarrow>
     (case retrieval_qa_init env (rag_chain v) of
        Some (Exception e) \<Rightarrow> Exit 1
      | Some KeyboardInterrupt \<Rightarrow> Raise KeyboardInterrupt
      | None \<Rightarrow> Return (rag_chain v)))"
  by (simp add: main_create_rag_chain_def gpt_def rag_chain_def proc_defs split: sp)

subsection \<open>Retrieval and generation\<close>

lemma body_calls:
  assumes "is_question (strip l)"
  shows "calls_of (emitted (main_loop_body env chain (Line l)) s) =
       Retrieve (retriever_vectorstore chain) (retriever_k chain) (strip l) #
         (case retrieve env (calls s) (retriever_vectorstore chain) (retriever_k chain) (strip l) of
            Inr docs \<Rightarrow> [Generate (chain_llm chain) (strip l) docs]
          | Inl e \<Rightarrow> [])"
proof (cases "retrieve env (calls s) (retriever_vectorstore chain) (retriever_k chain) (strip l)")
  case (Inl e)
  then show ?thesis
    using body_retrieve_exception [OF assms, of env s chain]
      body_retrieve_interrupt [OF assms, of env s chain]
    by (cases e) (simp_all add: calls_of_append)
next
  case (Inr docs)
  show ?thesis
  proof (cases "generate env (calls s) (chain_llm chain) (strip l) docs")
    case (Inl e)
    then show ?thesis
      using Inr body_generate_exception [OF assms Inr] body_generate_interrupt [OF assms Inr]
      by (cases e) (simp_all add: calls_of_append)
  next
    case (Inr answer)
    then show ?thesis
      using \<open>retrieve env (calls s) (retriever_vectorstore chain) (retriever_k chain) (strip l)
               = Inr docs\<close>
        body_answered [OF assms _ Inr]
      by (simp add: calls_of_append)
  qed
qed

text \<open>
  Claim C1.  The chain that \<^verbatim>\<open>create_rag_chain\<close> returns for a vectorstore \<open>v\<close> retrieves
  from \<open>v\<close> with \<open>k = 5\<close>.  For every question entered at the prompt (a line that, stripped,
  is neither empty nor a command), the library calls of that pass through the loop are: one
  retrieval of the 5 nearest chunks of \<open>v\<close> for the question, and, when the retrieval
  returns, one call of the chat model with the question and exactly the chunks retrieved.
\<close>

theorem C1_top_k_chunks_forwarded:
  assumes "fst (main_create_rag_chain env v s0) = Return chain"
    and "is_question (strip l)"
  shows "retriever_vectorstore chain = v \<and> retriever_k chain = 5
       \<and> calls_of (emitted (main_loop_body env chain (Line l)) s) =
           Retrieve v 5 (strip l) #
             (case retrieve env (calls s) v 5 (strip l) of
                Inr docs \<Rightarrow> [Generate (chain_llm chain) (strip l) docs]
              | Inl e \<Rightarrow> [])"
proof -
  from assms(1) have "chain = rag_chain v"
    by (simp add: main_create_rag_chain_fst split: sp)
  then have "retriever_vectorstore chain = v" "retriever_k chain = 5"
    by (simp_all add: rag_chain_def)
  with body_calls [OF assms(2), of env chain s] show ?thesis
    by simp
qed

theorem C1_top_k_chunks_forwarded_witness:
  "fst (main_create_rag_chain demo_env demo_docs (start demo_fs)) = Return (rag_chain demo_docs)
   \<and> is_question (strip ''  O que diz o artigo 1?  '')
   \<and> calls_of (emitted (main_loop_body demo_env (rag_chain demo_docs)
        (Line ''  O que diz o artigo 1?  '')) (start demo_fs)) =
       [Retrieve demo_docs 5 ''O que diz o artigo 1?'',
        Generate gpt ''O que diz o artigo 1?'' demo_docs]"
proof -
  have h1: "fst (main_create_rag_chain demo_env demo_docs (start demo_fs))
              = Return (rag_chain demo_docs)"
    by (simp add: main_create_rag_chain_fst demo_env_def)
  have h2: "is_question (strip ''  O que diz o artigo 1?  '')"
    by (rule question_demo)
  show ?thesis
    using h1 h2 C1_top_k_chunks_forwarded [OF h1 h2, of "start demo_fs"]
    by (simp add: strip_demo demo_env_def demo_docs_def start_def rag_chain_def)
qed

subsection \<open>What is shown after an answer\<close>

lemma rule_differs: "length t \<noteq> 70 \<Longrightarrow> replicate 70 c \<noteq> t"
  by auto

lemma demo_emitted:
  "emitted (main_loop_body demo_env (rag_chain demo_docs) (Line ''  O que diz o artigo 1?  ''))
     (start demo_fs) =
   question_intro
   @ [Call (Retrieve demo_docs 5 ''O que diz o artigo 1?''),
      Call (Generate gpt ''O que diz o artigo 1?'' demo_docs)]
   @ answer_shown ''Do povo.'' demo_docs"
  using body_answered [OF question_demo, of demo_env "start demo_fs" "rag_chain demo_docs"
          demo_docs "''Do povo.''"]
  by (simp add: strip_demo demo_env_def demo_docs_def start_def rag_chain_def)

text \<open>
  Claim C4, as stated, does not hold.  It says that after every answered question the list
  of the source documents is printed.  In the concrete environment the question is answered
  from one source document, and nothing that the pass writes (console line or log record)
  contains the list of the sources, the path of a source or the text of a source: the loop
  hands the list to \<^verbatim>\<open>logger.debug\<close>, and the logger is configured at level INFO.
\<close>

theorem C4_source_list_not_printed:
  "\<not> (\<forall>(env :: document list env) chain l s docs answer.
        is_question (strip l)
        \<and> retrieve env (calls s) (retriever_vectorstore chain) (retriever_k chain) (strip l)
            = Inr docs
        \<and> generate env (calls s) (chain_llm chain) (strip l) docs = Inr answer
        \<and> return_source_documents chain \<and> docs \<noteq> []
        \<longrightarrow> (\<exists>ev \<in> set (emitted (main_loop_body env chain (Line l)) s). shows_sources docs ev))"
proof
  assume a: "\<forall>(env :: document list env) chain l s docs answer.
        is_question (strip l)
        \<and> retrieve env (calls s) (retriever_vectorstore chain) (retriever_k chain) (strip l)
            = Inr docs
        \<and> generate env (calls s) (chain_llm chain) (strip l) docs = Inr answer
        \<and> return_source_documents chain \<and> docs \<noteq> []
        \<longrightarrow> (\<exists>ev \<in> set (emitted (main_loop_body env chain (Line l)) s). shows_sources docs ev)"
  have h: "is_question (strip ''  O que diz o artigo 1?  '')
        \<and> retrieve demo_env (calls (start demo_fs)) (retriever_vectorstore (rag_chain demo_docs))
            (retriever_k (rag_chain demo_docs)) (strip ''  O que diz o artigo 1?  '')
            = Inr demo_docs
        \<and> generate demo_env (calls (start demo_fs)) (chain_llm (rag_chain demo_docs))
            (strip ''  O que diz o artigo 1?  '') demo_docs = Inr ''Do povo.''
        \<and> return_source_documents (rag_chain demo_docs) \<and> demo_docs \<noteq> []"
    using question_demo by (simp add: demo_env_def demo_docs_def rag_chain_def)
  have "\<exists>ev \<in> set (emitted (main_loop_body demo_env (rag_chain demo_docs)
            (Line ''  O que diz o artigo 1?  '')) (start demo_fs)). shows_sources demo_docs ev"
    using a [rule_format, OF h] .
  then show False
    unfolding demo_emitted
    by (simp add: question_intro_def answer_shown_def shows_sources_def
          piece_shows_def demo_docs_def rule_differs)
qed

text \<open>
  Claim C4, amended.  After every answered question the pass through the loop has written,
  in this order: the prompt and the notice that the question is being processed, the
  retrieval and the call of the chat model, and then \<open>answer_shown\<close>: the answer text between
  two rules, followed, when the chain returned source documents, by one line giving their
  number (on the console and in the log) and nothing else about them.  \<open>question_count\<close> has
  been incremented.
\<close>

theorem C4_answer_and_source_count_printed:
  assumes "is_question (strip l)"
    and "retrieve env (calls s) (retriever_vectorstore chain) (retriever_k chain) (strip l)
           = Inr docs"
    and "generate env (calls s) (chain_llm chain) (strip l) docs = Inr answer"
    and "return_source_documents chain"
  shows "emitted (main_loop_body env chain (Line l)) s =
           question_intro
           @ [Call (Retrieve (retriever_vectorstore chain) (retriever_k chain) (strip l)),
              Call (Generate (chain_llm chain) (strip l) docs)]
           @ answer_shown answer docs
       \<and> question_count (snd (main_loop_body env chain (Line l) s)) = Suc (question_count s)"
  using body_answered [OF assms(1-3)] assms(4)
  by simp

theorem C4_answer_and_source_count_printed_witness:
  "is_question (strip ''  O que diz o artigo 1?  '')
   \<and> retrieve demo_env (calls (start demo_fs)) (retriever_vectorstore (rag_chain demo_docs))
        (retriever_k (rag_chain demo_docs)) (strip ''  O que diz o artigo 1?  '') = Inr demo_docs
   \<and> generate demo_env (calls (start demo_fs)) (chain_llm (rag_chain demo_docs))
        (strip ''  O que diz o artigo 1?  '') demo_docs = Inr ''Do povo.''
   \<and> return_source_documents (rag_chain demo_docs)
   \<and> emitted (main_loop_body demo_env (rag_chain demo_docs)
        (Line ''  O que diz o artigo 1?  '')) (start demo_fs) =
       [Prompt [U 128172, Str '' Pergunta: ''],
        Print [],
        PrintColor NORMAL BLUE [U 8505, U 65039, Str ''  '', Str ''Processando sua pergunta...''],
        Log INFO [Str ''Processando sua pergunta...''],
        Call (Retrieve demo_docs 5 ''O que diz o artigo 1?''),
        Call (Generate gpt ''O que diz o artigo 1?'' demo_docs),
        Print [],
        PrintColor BRIGHT CYAN [U 128221, Str '' Resposta:''],
        PrintColor NORMAL CYAN [Str (replicate 70 CHR ''-'')],
        Print [Str ''Do povo.''],
        PrintColor NORMAL CYAN [Str (replicate 70 CHR ''-'')],
        Print [],
        PrintColor NORMAL BLUE [U 8505, U 65039, Str ''  '', Str ''Baseado em '', Num 1,
          Str '' documentos relevantes''],
        Log INFO [Str ''Baseado em '', Num 1, Str '' documentos relevantes''],
        Print []]
   \<and> question_count (snd (main_loop_body demo_env (rag_chain demo_docs)
        (Line ''  O que diz o artigo 1?  '') (start demo_fs))) = 1"
proof -
  have h1: "is_question (strip ''  O que diz o artigo 1?  '')"
    by (rule question_demo)
  have h2: "retrieve demo_env (calls (start demo_fs)) (retriever_vectorstore (rag_chain demo_docs))
        (retriever_k (rag_chain demo_docs)) (strip ''  O que diz o artigo 1?  '') = Inr demo_docs"
    by (simp add: demo_env_def demo_docs_def rag_chain_def)
  have h3: "generate demo_env (calls (start demo_fs)) (chain_llm (rag_chain demo_docs))
        (strip ''  O que diz o artigo 1?  '') demo_docs = Inr ''Do povo.''"
    by (simp add: demo_env_def)
  have h4: "return_source_documents (rag_chain demo_docs)"
    by (simp add: rag_chain_def)
  show ?thesis
    using h1 h2 h3 h4 C4_answer_and_source_count_printed [OF h1 h2 h3 h4]
    by (simp add: strip_demo rag_chain_def question_intro_def answer_shown_def demo_docs_def
          start_def)
qed

end
